theory Spec2Isabelle
  imports Main "HOL-Library.Char_ord" "HOL-Library.List_Lexorder" "HOL-Library.Multiset"
begin

section \<open>Python values\<close>

text \<open>
  A Python \<open>str\<close> is a sequence of Unicode code points; it is modelled as a list of
  natural numbers. \<open>ascii\<close> turns a literal of the theory into such a list.
\<close>

type_synonym ustr = "nat list"

definition ascii :: "string \<Rightarrow> ustr" where
  "ascii s = map of_char s"

text \<open>
  The values \<open>json.loads\<close> produces: \<open>None\<close>, \<open>bool\<close>, \<open>int\<close> (unbounded),
  \<open>float\<close>, \<open>str\<close>, \<open>list\<close> and \<open>dict\<close> with \<open>str\<close> keys. A dict keeps its
  insertion order, so it is an association list. A float is represented by the text
  \<open>json.dumps\<close> prints for it (\<open>float.__repr__\<close>, or \<open>NaN\<close>, \<open>Infinity\<close>,
  \<open>-Infinity\<close>); how a literal is rounded to that text is not modelled and is a
  parameter of the decoder.
\<close>

datatype json =
    JNull
  | JBool bool
  | JInt int
  | JFloat ustr
  | JStr ustr
  | JArr "json list"
  | JObj "(ustr \<times> json) list"

datatype missing_file = DataDirectory | CatalogueFile

datatype py_error =
    KeyError ustr
  | TypeError
  | AttributeError
  | FileNotFoundError missing_file
  | ValueError ustr
  | JSONDecodeError
  | OSError
  | RecursionError

definition py_bind :: "py_error + 'a \<Rightarrow> ('a \<Rightarrow> py_error + 'b) \<Rightarrow> py_error + 'b" where
  "py_bind r f = (case r of Inl e \<Rightarrow> Inl e | Inr x \<Rightarrow> f x)"

subsection \<open>\<open>json.dumps\<close>\<close>

text \<open>\<open>'{0:04x}'.format(n)\<close> for \<open>n < 0x10000\<close>.\<close>

definition hex_digit :: "nat \<Rightarrow> nat" where
  "hex_digit d = (if d < 10 then 0x30 + d else 0x57 + d)"

definition hex4 :: "nat \<Rightarrow> ustr" where
  "hex4 n = [hex_digit (n div 4096 mod 16), hex_digit (n div 256 mod 16),
             hex_digit (n div 16 mod 16), hex_digit (n mod 16)]"

text \<open>
  The replacement \<open>encode_basestring_ascii\<close> makes for one code point
  (\<open>ensure_ascii=True\<close>): the short escapes, the printable ASCII characters as they
  are, \<open>\uXXXX\<close> below \<open>0x10000\<close> and a surrogate pair above. The pair is
  \<open>0xd800 | ((n >> 10) & 0x3ff)\<close> and \<open>0xdc00 | (n & 0x3ff)\<close>; the low ten bits of
  both constants are zero, so the bitwise or is an addition.
\<close>

definition escape_char :: "nat \<Rightarrow> ustr" where
  "escape_char c =
     (if c = 0x22 then [0x5C, 0x22]
      else if c = 0x5C then [0x5C, 0x5C]
      else if c = 0x0A then [0x5C, 0x6E]
      else if c = 0x0D then [0x5C, 0x72]
      else if c = 0x09 then [0x5C, 0x74]
      else if c = 0x08 then [0x5C, 0x62]
      else if c = 0x0C then [0x5C, 0x66]
      else if 0x20 \<le> c \<and> c \<le> 0x7E then [c]
      else if c < 0x10000 then [0x5C, 0x75] @ hex4 c
      else (let n = c - 0x10000;
                s1 = 0xD800 + (n div 1024) mod 1024;
                s2 = 0xDC00 + n mod 1024
            in [0x5C, 0x75] @ hex4 s1 @ [0x5C, 0x75] @ hex4 s2))"

definition encode_basestring_ascii :: "ustr \<Rightarrow> ustr" where
  "encode_basestring_ascii s = 0x22 # concat (map escape_char s) @ [0x22]"

function show_nat :: "nat \<Rightarrow> ustr" where
  "show_nat n = (if n < 10 then [0x30 + n] else show_nat (n div 10) @ [0x30 + n mod 10])"
  by pat_completeness auto
termination
  by (relation "measure id") auto

definition show_int :: "int \<Rightarrow> ustr" where
  "show_int i = (if i < 0 then 0x2D # show_nat (nat (- i)) else show_nat (nat i))"

text \<open>
  \<open>json.dumps(obj)\<close> with the default separators \<open>', '\<close> and \<open>': '\<close> and no
  indentation.
\<close>

fun dumps :: "json \<Rightarrow> ustr"
  and dumps_items :: "json list \<Rightarrow> ustr"
  and dumps_pairs :: "(ustr \<times> json) list \<Rightarrow> ustr" where
  "dumps JNull = ascii ''null''"
| "dumps (JBool b) = (if b then ascii ''true'' else ascii ''false'')"
| "dumps (JInt i) = show_int i"
| "dumps (JFloat r) = r"
| "dumps (JStr s) = encode_basestring_ascii s"
| "dumps (JArr xs) = ascii ''['' @ dumps_items xs @ ascii '']''"
| "dumps (JObj ps) = ascii ''{'' @ dumps_pairs ps @ ascii ''}''"
| "dumps_items [] = []"
| "dumps_items [x] = dumps x"
| "dumps_items (x # y # ys) = dumps x @ ascii '', '' @ dumps_items (y # ys)"
| "dumps_pairs [] = []"
| "dumps_pairs [(k, v)] = encode_basestring_ascii k @ ascii '': '' @ dumps v"
| "dumps_pairs ((k, v) # q # qs) =
     encode_basestring_ascii k @ ascii '': '' @ dumps v @ ascii '', '' @ dumps_pairs (q # qs)"

text \<open>
  \<open>json.dumps(obj, indent=2)\<close>: every element of a non-empty list or dict on a line
  of its own, indented by two spaces per level; the item separator is \<open>','\<close>, the key
  separator \<open>': '\<close>; an empty list is \<open>[]\<close> and an empty dict \<open>{}\<close>.
\<close>

definition newline_indent :: "nat \<Rightarrow> ustr" where
  "newline_indent level = 0x0A # replicate (2 * level) 0x20"

fun dumps_indent :: "nat \<Rightarrow> json \<Rightarrow> ustr"
  and dumps_indent_items :: "nat \<Rightarrow> json list \<Rightarrow> ustr"
  and dumps_indent_pairs :: "nat \<Rightarrow> (ustr \<times> json) list \<Rightarrow> ustr" where
  "dumps_indent level JNull = ascii ''null''"
| "dumps_indent level (JBool b) = (if b then ascii ''true'' else ascii ''false'')"
| "dumps_indent level (JInt i) = show_int i"
| "dumps_indent level (JFloat r) = r"
| "dumps_indent level (JStr s) = encode_basestring_ascii s"
| "dumps_indent level (JArr []) = ascii ''[]''"
| "dumps_indent level (JArr (x # xs)) =
     ascii ''['' @ newline_indent (Suc level) @ dumps_indent_items (Suc level) (x # xs)
       @ newline_indent level @ ascii '']''"
| "dumps_indent level (JObj []) = ascii ''{}''"
| "dumps_indent level (JObj (p # ps)) =
     ascii ''{'' @ newline_indent (Suc level) @ dumps_indent_pairs (Suc level) (p # ps)
       @ newline_indent level @ ascii ''}''"
| "dumps_indent_items level [] = []"
| "dumps_indent_items level [x] = dumps_indent level x"
| "dumps_indent_items level (x # y # ys) =
     dumps_indent level x @ ascii '','' @ newline_indent level
       @ dumps_indent_items level (y # ys)"
| "dumps_indent_pairs level [] = []"
| "dumps_indent_pairs level [(k, v)] =
     encode_basestring_ascii k @ ascii '': '' @ dumps_indent level v"
| "dumps_indent_pairs level ((k, v) # q # qs) =
     encode_basestring_ascii k @ ascii '': '' @ dumps_indent level v @ ascii '',''
       @ newline_indent level @ dumps_indent_pairs level (q # qs)"

subsection \<open>\<open>json.loads\<close>\<close>

definition is_ws :: "nat \<Rightarrow> bool" where
  "is_ws c = (c = 0x20 \<or> c = 0x09 \<or> c = 0x0A \<or> c = 0x0D)"

definition skip_ws :: "ustr \<Rightarrow> ustr" where
  "skip_ws s = dropWhile is_ws s"

definition hex_val :: "nat \<Rightarrow> nat option" where
  "hex_val c =
     (if 0x30 \<le> c \<and> c \<le> 0x39 then Some (c - 0x30)
      else if 0x61 \<le> c \<and> c \<le> 0x66 then Some (c - 0x57)
      else if 0x41 \<le> c \<and> c \<le> 0x46 then Some (c - 0x37)
      else None)"

text \<open>The four hexadecimal digits after \<open>\u\<close>.\<close>

definition decode_uXXXX :: "ustr \<Rightarrow> nat option" where
  "decode_uXXXX s =
     (case s of
        a # b # c # d # _ \<Rightarrow>
          (case (hex_val a, hex_val b, hex_val c, hex_val d) of
             (Some x, Some y, Some z, Some w) \<Rightarrow> Some (x * 4096 + y * 256 + z * 16 + w)
           | _ \<Rightarrow> None)
      | _ \<Rightarrow> None)"

definition backslash :: "nat \<Rightarrow> nat option" where
  "backslash e =
     (if e = 0x22 then Some 0x22
      else if e = 0x5C then Some 0x5C
      else if e = 0x2F then Some 0x2F
      else if e = 0x62 then Some 0x08
      else if e = 0x66 then Some 0x0C
      else if e = 0x6E then Some 0x0A
      else if e = 0x72 then Some 0x0D
      else if e = 0x74 then Some 0x09
      else None)"

definition cons_char :: "nat \<Rightarrow> py_error + ustr \<times> ustr \<Rightarrow> py_error + ustr \<times> ustr" where
  "cons_char c r = (case r of Inl e \<Rightarrow> Inl e | Inr (s, rest) \<Rightarrow> Inr (c # s, rest))"

text \<open>
  \<open>scanstring\<close> (strict): the input starts right after the opening quote; the result
  is the decoded string and the input after the closing quote. A high surrogate
  escape directly followed by a low surrogate escape is one code point.
\<close>

function scanstring :: "ustr \<Rightarrow> py_error + ustr \<times> ustr" where
  "scanstring [] = Inl JSONDecodeError"
| "scanstring (c # s) =
     (if c = 0x22 then Inr ([], s)
      else if c = 0x5C then
        (case s of
           [] \<Rightarrow> Inl JSONDecodeError
         | e # s1 \<Rightarrow>
             if e = 0x75 then
               (case decode_uXXXX s1 of
                  None \<Rightarrow> Inl JSONDecodeError
                | Some uni \<Rightarrow>
                    if 0xD800 \<le> uni \<and> uni \<le> 0xDBFF \<and> take 2 (drop 4 s1) = [0x5C, 0x75] then
                      (case decode_uXXXX (drop 6 s1) of
                         None \<Rightarrow> Inl JSONDecodeError
                       | Some uni2 \<Rightarrow>
                           if 0xDC00 \<le> uni2 \<and> uni2 \<le> 0xDFFF then
                             cons_char (0x10000 + ((uni - 0xD800) * 1024 + (uni2 - 0xDC00)))
                               (scanstring (drop 10 s1))
                           else cons_char uni (scanstring (drop 4 s1)))
                    else cons_char uni (scanstring (drop 4 s1)))
             else
               (case backslash e of
                  None \<Rightarrow> Inl JSONDecodeError
                | Some ch \<Rightarrow> cons_char ch (scanstring s1)))
      else if c < 0x20 then Inl JSONDecodeError
      else cons_char c (scanstring s))"
  by pat_completeness auto
termination
  by (relation "measure length") auto

text \<open>
  The number pattern \<open>(-?(?:0|[1-9][0-9]*))(\.[0-9]+)?([eE][-+]?[0-9]+)?\<close>: an
  integer when neither fraction nor exponent matched, a float otherwise.
\<close>

definition is_digit :: "nat \<Rightarrow> bool" where
  "is_digit c = (0x30 \<le> c \<and> c \<le> 0x39)"

definition int_part :: "ustr \<Rightarrow> (ustr \<times> ustr) option" where
  "int_part s =
     (case s of
        [] \<Rightarrow> None
      | c # r \<Rightarrow>
          if c = 0x30 then Some ([c], r)
          else if 0x31 \<le> c \<and> c \<le> 0x39 then Some (c # takeWhile is_digit r, dropWhile is_digit r)
          else None)"

definition frac_part :: "ustr \<Rightarrow> ustr \<times> ustr" where
  "frac_part s =
     (case s of
        d # e # r \<Rightarrow>
          if d = 0x2E \<and> is_digit e then (d # e # takeWhile is_digit r, dropWhile is_digit r)
          else ([], s)
      | _ \<Rightarrow> ([], s))"

definition exp_sign :: "ustr \<Rightarrow> ustr \<times> ustr" where
  "exp_sign r =
     (case r of
        g # r' \<Rightarrow> if g = 0x2D \<or> g = 0x2B then ([g], r') else ([], r)
      | [] \<Rightarrow> ([], r))"

definition exp_part :: "ustr \<Rightarrow> ustr \<times> ustr" where
  "exp_part s =
     (case s of
        [] \<Rightarrow> ([], s)
      | e # r \<Rightarrow>
          if e = 0x65 \<or> e = 0x45 then
            (case exp_sign r of
               (sg, r1) \<Rightarrow>
                 if takeWhile is_digit r1 \<noteq> []
                 then (e # sg @ takeWhile is_digit r1, dropWhile is_digit r1)
                 else ([], s))
          else ([], s))"

definition digits_val :: "ustr \<Rightarrow> nat" where
  "digits_val ds = foldl (\<lambda>a c. 10 * a + (c - 0x30)) 0 ds"

definition num_sign :: "ustr \<Rightarrow> ustr \<times> ustr" where
  "num_sign s =
     (case s of
        c # r \<Rightarrow> if c = 0x2D then ([c], r) else ([], s)
      | [] \<Rightarrow> ([], s))"

definition match_number :: "(ustr \<Rightarrow> ustr) \<Rightarrow> ustr \<Rightarrow> (json \<times> ustr) option" where
  "match_number parse_float s =
     (case num_sign s of
        (sg, s1) \<Rightarrow>
          (case int_part s1 of
             None \<Rightarrow> None
           | Some (ds, s2) \<Rightarrow>
               (case frac_part s2 of
                  (frac, s3) \<Rightarrow>
                    (case exp_part s3 of
                       (ex, s4) \<Rightarrow>
                         if frac = [] \<and> ex = [] then
                           Some (JInt (if sg = [] then int (digits_val ds)
                                       else - int (digits_val ds)), s4)
                         else Some (JFloat (parse_float (sg @ ds @ frac @ ex)), s4)))))"

text \<open>
  Python's \<open>dict\<close> built from the pairs in reading order: a repeated key keeps its
  first position and takes the last value.
\<close>

fun dict_set :: "ustr \<Rightarrow> json \<Rightarrow> (ustr \<times> json) list \<Rightarrow> (ustr \<times> json) list" where
  "dict_set k v [] = [(k, v)]"
| "dict_set k v (p # ps) = (if fst p = k then (k, v) # ps else p # dict_set k v ps)"

text \<open>
  The scanner. \<open>scan_once\<close> reads one value at the start of the input (it skips no
  leading whitespace); \<open>JSONArray\<close> is the loop over the elements after \<open>[\<close>, the
  input at the start of an element; \<open>JSONObject\<close> is the loop over the members, the
  input right after the opening quote of a key. The recursion of the decoder follows
  the nesting of the document; here it is bounded by a fuel argument, and \<open>None\<close>
  says that the fuel ran out.
\<close>

fun scan_once :: "(ustr \<Rightarrow> ustr) \<Rightarrow> nat \<Rightarrow> ustr \<Rightarrow> (py_error + json \<times> ustr) option"
  and JSONArray :: "(ustr \<Rightarrow> ustr) \<Rightarrow> nat \<Rightarrow> ustr \<Rightarrow> json list \<Rightarrow> (py_error + json \<times> ustr) option"
  and JSONObject :: "(ustr \<Rightarrow> ustr) \<Rightarrow> nat \<Rightarrow> ustr \<Rightarrow> (ustr \<times> json) list
                       \<Rightarrow> (py_error + json \<times> ustr) option" where
  "scan_once pf 0 s = None"
| "scan_once pf (Suc n) [] = Some (Inl JSONDecodeError)"
| "scan_once pf (Suc n) (c # r) =
     (if c = 0x22 then
        (case scanstring r of
           Inl e \<Rightarrow> Some (Inl e)
         | Inr (str, rest) \<Rightarrow> Some (Inr (JStr str, rest)))
      else if c = 0x7B then
        (case skip_ws r of
           [] \<Rightarrow> Some (Inl JSONDecodeError)
         | d # r1 \<Rightarrow>
             if d = 0x7D then Some (Inr (JObj [], r1))
             else if d = 0x22 then JSONObject pf n r1 []
             else Some (Inl JSONDecodeError))
      else if c = 0x5B then
        (case skip_ws r of
           [] \<Rightarrow> Some (Inl JSONDecodeError)
         | d # r1 \<Rightarrow>
             if d = 0x5D then Some (Inr (JArr [], r1))
             else JSONArray pf n (d # r1) [])
      else if take 4 (c # r) = ascii ''null'' then Some (Inr (JNull, drop 4 (c # r)))
      else if take 4 (c # r) = ascii ''true'' then Some (Inr (JBool True, drop 4 (c # r)))
      else if take 5 (c # r) = ascii ''false'' then Some (Inr (JBool False, drop 5 (c # r)))
      else
        (case match_number pf (c # r) of
           Some (v, rest) \<Rightarrow> Some (Inr (v, rest))
         | None \<Rightarrow>
             if take 3 (c # r) = ascii ''NaN''
             then Some (Inr (JFloat (ascii ''NaN''), drop 3 (c # r)))
             else if take 8 (c # r) = ascii ''Infinity''
             then Some (Inr (JFloat (ascii ''Infinity''), drop 8 (c # r)))
             else if take 9 (c # r) = ascii ''-Infinity''
             then Some (Inr (JFloat (ascii ''-Infinity''), drop 9 (c # r)))
             else Some (Inl JSONDecodeError)))"
| "JSONArray pf 0 s acc = None"
| "JSONArray pf (Suc n) s acc =
     (case scan_once pf n s of
        None \<Rightarrow> None
      | Some (Inl e) \<Rightarrow> Some (Inl e)
      | Some (Inr (v, r)) \<Rightarrow>
          (case skip_ws r of
             [] \<Rightarrow> Some (Inl JSONDecodeError)
           | d # r1 \<Rightarrow>
               if d = 0x5D then Some (Inr (JArr (acc @ [v]), r1))
               else if d = 0x2C then JSONArray pf n (skip_ws r1) (acc @ [v])
               else Some (Inl JSONDecodeError)))"
| "JSONObject pf 0 s acc = None"
| "JSONObject pf (Suc n) s acc =
     (case scanstring s of
        Inl e \<Rightarrow> Some (Inl e)
      | Inr (key, r) \<Rightarrow>
          (case skip_ws r of
             [] \<Rightarrow> Some (Inl JSONDecodeError)
           | d # r1 \<Rightarrow>
               if d \<noteq> 0x3A then Some (Inl JSONDecodeError)
               else
                 (case scan_once pf n (skip_ws r1) of
                    None \<Rightarrow> None
                  | Some (Inl e) \<Rightarrow> Some (Inl e)
                  | Some (Inr (v, r2)) \<Rightarrow>
                      (case skip_ws r2 of
                         [] \<Rightarrow> Some (Inl JSONDecodeError)
                       | d2 # r3 \<Rightarrow>
                           if d2 = 0x7D then Some (Inr (JObj (dict_set key v acc), r3))
                           else if d2 = 0x2C then
                             (case skip_ws r3 of
                                [] \<Rightarrow> Some (Inl JSONDecodeError)
                              | q # r4 \<Rightarrow>
                                  if q = 0x22 then JSONObject pf n r4 (dict_set key v acc)
                                  else Some (Inl JSONDecodeError))
                           else Some (Inl JSONDecodeError)))))"

text \<open>
  \<open>json.loads(s)\<close>: whitespace, one value, whitespace, the end of the input. The
  fuel is twice the length of the input and one more; \<open>RecursionError\<close> stands for
  running out of it.
\<close>

definition json_loads :: "(ustr \<Rightarrow> ustr) \<Rightarrow> ustr \<Rightarrow> py_error + json" where
  "json_loads pf s =
     (case scan_once pf (Suc (2 * length s)) (skip_ws s) of
        None \<Rightarrow> Inl RecursionError
      | Some (Inl e) \<Rightarrow> Inl e
      | Some (Inr (v, rest)) \<Rightarrow> if skip_ws rest = [] then Inr v else Inl JSONDecodeError)"

section \<open>Python operations the pipeline uses\<close>

text \<open>\<open>obj[key]\<close> with a \<open>str\<close> key: only a dict can be indexed by a string.\<close>

definition py_getitem :: "json \<Rightarrow> ustr \<Rightarrow> py_error + json" where
  "py_getitem obj key =
     (case obj of
        JObj ps \<Rightarrow> (case map_of ps key of Some v \<Rightarrow> Inr v | None \<Rightarrow> Inl (KeyError key))
      | _ \<Rightarrow> Inl TypeError)"

text \<open>\<open>obj.get(key, default)\<close>: only a dict has the method.\<close>

definition py_get :: "json \<Rightarrow> ustr \<Rightarrow> json \<Rightarrow> py_error + json" where
  "py_get obj key dflt =
     (case obj of
        JObj ps \<Rightarrow> Inr (case map_of ps key of Some v \<Rightarrow> v | None \<Rightarrow> dflt)
      | _ \<Rightarrow> Inl AttributeError)"

text \<open>Truth value of \<open>if v:\<close>.\<close>

definition truthy :: "json \<Rightarrow> bool" where
  "truthy v =
     (case v of
        JNull \<Rightarrow> False
      | JBool b \<Rightarrow> b
      | JInt i \<Rightarrow> i \<noteq> 0
      | JFloat r \<Rightarrow> r \<noteq> ascii ''0.0'' \<and> r \<noteq> ascii ''-0.0''
      | JStr s \<Rightarrow> s \<noteq> []
      | JArr xs \<Rightarrow> xs \<noteq> []
      | JObj ps \<Rightarrow> ps \<noteq> [])"

text \<open>\<open>len(v)\<close>.\<close>

definition py_len :: "json \<Rightarrow> py_error + nat" where
  "py_len v =
     (case v of
        JStr s \<Rightarrow> Inr (length s)
      | JArr xs \<Rightarrow> Inr (length xs)
      | JObj ps \<Rightarrow> Inr (length ps)
      | _ \<Rightarrow> Inl TypeError)"

text \<open>\<open>sub in s\<close> for strings.\<close>

fun py_in :: "ustr \<Rightarrow> ustr \<Rightarrow> bool" where
  "py_in sub [] = (sub = [])"
| "py_in sub (c # s) = (take (length sub) (c # s) = sub \<or> py_in sub s)"

text \<open>\<open>sep.join(parts)\<close> for strings.\<close>

fun join :: "ustr \<Rightarrow> ustr list \<Rightarrow> ustr" where
  "join sep [] = []"
| "join sep [p] = p"
| "join sep (p # q # ps) = p @ sep @ join sep (q # ps)"

text \<open>
  What the pipeline reads from outside: whether a directory exists, what a glob
  pattern matches in it (in the order the file system lists the paths; a path is the
  list of its parts), the lines of a file (\<open>None\<close> when it cannot be opened), and
  the text of the tool catalogue document (\<open>None\<close> when it is missing). Two parts
  of Python are parameters as well: the text of the float a literal denotes, and the
  \<open>repr\<close> of a list or dict.
\<close>

type_synonym path = "ustr list"

record world =
  path_exists :: "ustr \<Rightarrow> bool"
  path_glob :: "ustr \<Rightarrow> ustr \<Rightarrow> path list"
  open_lines :: "path \<Rightarrow> ustr list option"
  catalogue_text :: "ustr option"
  float_repr :: "ustr \<Rightarrow> ustr"
  container_repr :: "json \<Rightarrow> ustr"

text \<open>\<open>f"{v}"\<close>: a string is inserted as it is, everything else as \<open>str(v)\<close>.\<close>

definition py_str :: "world \<Rightarrow> json \<Rightarrow> ustr" where
  "py_str w v =
     (case v of
        JNull \<Rightarrow> ascii ''None''
      | JBool b \<Rightarrow> (if b then ascii ''True'' else ascii ''False'')
      | JInt i \<Rightarrow> show_int i
      | JFloat r \<Rightarrow>
          (if r = ascii ''NaN'' then ascii ''nan''
           else if r = ascii ''Infinity'' then ascii ''inf''
           else if r = ascii ''-Infinity'' then ascii ''-inf''
           else r)
      | JStr s \<Rightarrow> s
      | JArr xs \<Rightarrow> container_repr w v
      | JObj ps \<Rightarrow> container_repr w v)"

section \<open>\<open>lab/constants.py\<close>\<close>

definition TOOL_PREAMBLE_lines :: "string list" where
  \<open>TOOL_PREAMBLE_lines =
    [''<TOOL_PREAMBLE>'',
     ''You can optionally call tools. Available tools are provided in the tools section.'',
     '''',
     ''FORMAT'',
     ''- To call a tool, output exactly one JSON object per tool call:'',
     ''  {"type":"tool_use","id":"toolu_<unique_id>","name":"<tool_name>","input":{<parameters>}}'',
     ''- The "id" field must be unique for each tool call (e.g., "toolu_01AbCdEfGhIjKlMnOp")'',
     ''- The "input" field contains the tool parameters as a JSON object'',
     ''- If no tool is needed, write a normal assistant reply (no JSON).'',
     ''- You can make multiple tool calls in one response by outputting an array of tool_use objects'',
     ''- After a tool_result is shown in the conversation, ground your reply in that result. If another call is needed, emit new tool_use objects.'',
     '''',
     ''RULES'',
     ''- Use only tools available in the provided tools catalog.'',
     ''- Parameters in "input" must be valid JSON and match the tool's input_schema exactly (no extra keys).'',
     ''- Required parameters must always be provided; optional parameters can be omitted.'',
     ''- Parameters account_id, user_id, and session_id are auto-injected by the system - do not include them in your tool calls.'',
     ''- If the needed tool is missing, say so and propose a manual workaround.'',
     ''- Never fabricate tool results; only reason over provided tool_result blocks.'',
     ''- Prefer making all needed tool calls at once when possible; if multi-step reasoning is required, do it turn-by-turn.'',
     '''',
     ''VALIDATION'',
     ''- If you receive a validator error (type=tool_error, name=_validator), correct the call and emit a new tool_use object.'',
     '''',
     ''OUTPUT'',
     ''- Do not wrap the JSON in code fences or add commentary on the same line.'',
     ''- Choose a tool only when it adds essential info or executes an action.'',
     ''</TOOL_PREAMBLE>'']\<close>

definition TOOL_PREAMBLE :: ustr where
  "TOOL_PREAMBLE = 0x0A # concat (map (\<lambda>l. ascii l @ [0x0A]) TOOL_PREAMBLE_lines)"

section \<open>\<open>lab/loader.py\<close>\<close>

definition load_tool_catalogue :: "world \<Rightarrow> py_error + json" where
  "load_tool_catalogue w =
     (case catalogue_text w of
        None \<Rightarrow> Inl (FileNotFoundError CatalogueFile)
      | Some text \<Rightarrow> json_loads (float_repr w) text)"

section \<open>\<open>lab/data_processor.py\<close>\<close>

record metadata =
  has_tools :: bool
  num_messages :: nat
  response_type :: ustr

text \<open>
  The fields \<open>input\<close> and \<open>output\<close> of the dataclass are named after the variables
  they are built from. \<open>output\<close> is annotated \<open>str\<close>, but the code stores the
  response content itself when it is not a list, whatever it is; so the field is a
  value.
\<close>

record TrainingExample =
  input_text :: ustr
  output_text :: json
  metadata :: metadata

definition load_session_files :: "world \<Rightarrow> ustr \<Rightarrow> ustr \<Rightarrow> py_error + path list" where
  "load_session_files w data_dir pattern =
     (if \<not> path_exists w data_dir then Inl (FileNotFoundError DataDirectory)
      else (let files = path_glob w data_dir pattern
            in if files = [] then Inl (ValueError pattern) else Inr (sort files)))"

text \<open>\<open>"\n\n".join([TOOL_PREAMBLE, system_prompt])\<close> raises when the prompt is no string.\<close>

definition inject_system_additions :: "json \<Rightarrow> bool \<Rightarrow> py_error + json" where
  "inject_system_additions system_prompt inject_preamble =
     (if \<not> inject_preamble then Inr system_prompt
      else (case system_prompt of
              JStr s \<Rightarrow> Inr (JStr (join (ascii ''\<newline>\<newline>'') [TOOL_PREAMBLE, s]))
            | _ \<Rightarrow> Inl TypeError))"

text \<open>Lines 63 to 66: the tools value the prompt is built from.\<close>

definition resolve_tools :: "world \<Rightarrow> json \<Rightarrow> bool \<Rightarrow> py_error + json" where
  "resolve_tools w request inject_catalog =
     py_bind (py_get request (ascii ''tools'') JNull) (\<lambda>tools.
       if inject_catalog \<and> tools = JNull then load_tool_catalogue w else Inr tools)"

definition block :: "ustr \<Rightarrow> ustr \<Rightarrow> ustr" where
  "block role body =
     ascii ''<|'' @ role @ ascii ''|>\<newline>'' @ body @ ascii ''\<newline><|end|>''"

definition tools_parts :: "json \<Rightarrow> ustr list" where
  "tools_parts tools =
     (if truthy tools then [block (ascii ''tools'') (dumps_indent 0 tools)] else [])"

definition message_part :: "world \<Rightarrow> json \<Rightarrow> py_error + ustr" where
  "message_part w msg =
     py_bind (py_getitem msg (ascii ''role'')) (\<lambda>role.
     py_bind (py_getitem msg (ascii ''content'')) (\<lambda>content.
       Inr (block (py_str w role) (py_str w content))))"

fun message_list_parts :: "world \<Rightarrow> json list \<Rightarrow> py_error + ustr list" where
  "message_list_parts w [] = Inr []"
| "message_list_parts w (msg # msgs) =
     py_bind (message_part w msg) (\<lambda>p.
     py_bind (message_list_parts w msgs) (\<lambda>ps. Inr (p # ps)))"

text \<open>
  \<open>for msg in messages\<close>: a list gives its elements; a dict gives its keys and a
  string its characters, which are strings and cannot be indexed by \<open>"role"\<close>;
  nothing else can be iterated.
\<close>

definition message_parts :: "world \<Rightarrow> json \<Rightarrow> py_error + ustr list" where
  "message_parts w messages =
     (case messages of
        JArr msgs \<Rightarrow> message_list_parts w msgs
      | JObj ps \<Rightarrow> (if ps = [] then Inr [] else Inl TypeError)
      | JStr s \<Rightarrow> (if s = [] then Inr [] else Inl TypeError)
      | _ \<Rightarrow> Inl TypeError)"

definition is_list :: "json \<Rightarrow> bool" where
  "is_list v = (case v of JArr xs \<Rightarrow> True | _ \<Rightarrow> False)"

definition process_session_turn ::
    "world \<Rightarrow> json \<Rightarrow> bool \<Rightarrow> bool \<Rightarrow> py_error + TrainingExample" where
  "process_session_turn w turn_data inject_preamble inject_catalog =
     py_bind (py_getitem turn_data (ascii ''request'')) (\<lambda>request.
     py_bind (py_getitem turn_data (ascii ''response'')) (\<lambda>response.
     py_bind (py_get request (ascii ''system'') (JStr [])) (\<lambda>original_system.
     py_bind (inject_system_additions original_system inject_preamble) (\<lambda>enhanced_system.
     py_bind (resolve_tools w request inject_catalog) (\<lambda>tools.
     py_bind (py_get request (ascii ''messages'') (JArr [])) (\<lambda>messages.
     py_bind (message_parts w messages) (\<lambda>parts.
     py_bind (py_get response (ascii ''content'') (JStr [])) (\<lambda>output_content.
     py_bind (py_len messages) (\<lambda>n.
       Inr \<lparr> input_text = join (ascii ''\<newline>\<newline>'')
                    (block (ascii ''system'') (py_str w enhanced_system)
                       # tools_parts tools @ parts),
             output_text = (if is_list output_content then JStr (dumps output_content)
                            else output_content),
             metadata = \<lparr> has_tools = (tools \<noteq> JNull),
                          num_messages = n,
                          response_type = (if is_list output_content then ascii ''tool_calls''
                                           else ascii ''text'') \<rparr> \<rparr>)))))))))"

text \<open>
  \<open>not line.strip()\<close>: the line holds nothing but whitespace, in the sense of
  \<open>str.isspace\<close>.
\<close>

definition py_isspace :: "nat \<Rightarrow> bool" where
  "py_isspace c =
     ((0x09 \<le> c \<and> c \<le> 0x0D) \<or> (0x1C \<le> c \<and> c \<le> 0x20) \<or> c = 0x85 \<or> c = 0xA0
      \<or> c = 0x1680 \<or> (0x2000 \<le> c \<and> c \<le> 0x200A) \<or> c = 0x2028 \<or> c = 0x2029
      \<or> c = 0x202F \<or> c = 0x205F \<or> c = 0x3000)"

definition blank :: "ustr \<Rightarrow> bool" where
  "blank line = list_all py_isspace line"

text \<open>
  The generator \<open>load_training_data\<close> is modelled by what its consumer observes:
  the examples it yields and the warnings it prints, in order, and the exception
  that ends it, if any.
\<close>

datatype warning = InvalidJSON path nat | MissingKey path nat ustr

datatype event = Yield TrainingExample | Warning warning

type_synonym run = "event list \<times> py_error option"

definition emit :: "event \<Rightarrow> run \<Rightarrow> run" where
  "emit ev r = (ev # fst r, snd r)"

text \<open>The body of the \<open>try\<close>, up to the \<open>yield\<close>.\<close>

definition read_line :: "world \<Rightarrow> bool \<Rightarrow> bool \<Rightarrow> ustr \<Rightarrow> py_error + TrainingExample" where
  "read_line w inject_preamble inject_catalog line =
     py_bind (json_loads (float_repr w) line) (\<lambda>turn_data.
       process_session_turn w turn_data inject_preamble inject_catalog)"

fun read_lines :: "world \<Rightarrow> bool \<Rightarrow> bool \<Rightarrow> path \<Rightarrow> nat \<Rightarrow> ustr list \<Rightarrow> run" where
  "read_lines w ip ic file_path line_num [] = ([], None)"
| "read_lines w ip ic file_path line_num (line # rest) =
     (if blank line then read_lines w ip ic file_path (Suc line_num) rest
      else (case read_line w ip ic line of
              Inr example \<Rightarrow>
                emit (Yield example) (read_lines w ip ic file_path (Suc line_num) rest)
            | Inl JSONDecodeError \<Rightarrow>
                emit (Warning (InvalidJSON file_path line_num))
                  (read_lines w ip ic file_path (Suc line_num) rest)
            | Inl (KeyError k) \<Rightarrow>
                emit (Warning (MissingKey file_path line_num k))
                  (read_lines w ip ic file_path (Suc line_num) rest)
            | Inl e \<Rightarrow> ([], Some e)))"

definition andthen :: "run \<Rightarrow> run \<Rightarrow> run" where
  "andthen r later = (case snd r of Some e \<Rightarrow> r | None \<Rightarrow> (fst r @ fst later, snd later))"

fun read_files :: "world \<Rightarrow> bool \<Rightarrow> bool \<Rightarrow> path list \<Rightarrow> run" where
  "read_files w ip ic [] = ([], None)"
| "read_files w ip ic (file_path # files) =
     (case open_lines w file_path of
        None \<Rightarrow> ([], Some OSError)
      | Some lines \<Rightarrow>
          andthen (read_lines w ip ic file_path 1 lines) (read_files w ip ic files))"

fun load_training_data :: "world \<Rightarrow> ustr \<Rightarrow> ustr list \<Rightarrow> bool \<Rightarrow> bool \<Rightarrow> run" where
  "load_training_data w data_dir [] ip ic = ([], None)"
| "load_training_data w data_dir (pattern # file_patterns) ip ic =
     (case load_session_files w data_dir pattern of
        Inl e \<Rightarrow> ([], Some e)
      | Inr files \<Rightarrow>
          andthen (read_files w ip ic files)
            (load_training_data w data_dir file_patterns ip ic))"

definition examples :: "run \<Rightarrow> TrainingExample list" where
  "examples r = concat (map (\<lambda>ev. case ev of Yield ex \<Rightarrow> [ex] | Warning x \<Rightarrow> []) (fst r))"

definition warnings :: "run \<Rightarrow> warning list" where
  "warnings r = concat (map (\<lambda>ev. case ev of Yield ex \<Rightarrow> [] | Warning x \<Rightarrow> [x]) (fst r))"

section \<open>Fixtures of \<open>tests/test_data_processor.py\<close>\<close>

text \<open>
  A world with the given catalogue document, the data directory \<open>data\<close> and the
  given files in it, listed by every pattern in the given order.
\<close>

definition test_world :: "ustr option \<Rightarrow> (path \<times> ustr list) list \<Rightarrow> world" where
  "test_world catalogue files =
     \<lparr> path_exists = (\<lambda>d. d = ascii ''data''),
       path_glob = (\<lambda>d pattern. if pattern = ascii ''*.jsonl'' then map fst files else []),
       open_lines = map_of files,
       catalogue_text = catalogue,
       float_repr = (\<lambda>s. s),
       container_repr = (\<lambda>v. dumps v) \<rparr>"

definition hello_request :: json where
  "hello_request =
     JObj [(ascii ''system'', JStr (ascii ''You are a test assistant.'')),
           (ascii ''tools'', JNull),
           (ascii ''messages'',
              JArr [JObj [(ascii ''role'', JStr (ascii ''user'')),
                          (ascii ''content'', JStr (ascii ''Hello!''))]])]"

definition hello_turn :: json where
  "hello_turn =
     JObj [(ascii ''request'', hello_request),
           (ascii ''response'',
              JObj [(ascii ''role'', JStr (ascii ''assistant'')),
                    (ascii ''content'', JStr (ascii ''Hi there!''))])]"

definition search_call :: json where
  "search_call =
     JObj [(ascii ''type'', JStr (ascii ''tool_use'')),
           (ascii ''id'', JStr (ascii ''call_123'')),
           (ascii ''name'', JStr (ascii ''search'')),
           (ascii ''input'', JObj [(ascii ''query'', JStr (ascii ''test''))])]"

definition tool_call_turn :: json where
  "tool_call_turn =
     JObj [(ascii ''request'', hello_request),
           (ascii ''response'',
              JObj [(ascii ''role'', JStr (ascii ''assistant'')),
                    (ascii ''content'', JArr [search_call])])]"

definition no_content_turn :: json where
  "no_content_turn =
     JObj [(ascii ''request'', hello_request),
           (ascii ''response'', JObj [(ascii ''role'', JStr (ascii ''assistant''))])]"

definition empty_tools_request :: json where
  "empty_tools_request =
     JObj [(ascii ''system'', JStr (ascii ''S'')),
           (ascii ''tools'', JArr []),
           (ascii ''messages'',
              JArr [JObj [(ascii ''role'', JStr (ascii ''user'')),
                          (ascii ''content'', JStr (ascii ''Hello!''))]])]"

definition empty_tools_turn :: json where
  "empty_tools_turn =
     JObj [(ascii ''request'', empty_tools_request),
           (ascii ''response'', JObj [(ascii ''content'', JStr (ascii ''Hi there!''))])]"

definition own_tools_request :: json where
  "own_tools_request =
     JObj [(ascii ''system'', JStr (ascii ''System prompt'')),
           (ascii ''tools'', JObj [(ascii ''some'', JStr (ascii ''tools''))]),
           (ascii ''messages'', JArr [])]"

definition own_tools_turn :: json where
  "own_tools_turn =
     JObj [(ascii ''request'', own_tools_request),
           (ascii ''response'', JObj [(ascii ''content'', JStr (ascii ''Final response''))])]"

definition small_catalogue :: ustr where
  \<open>small_catalogue = ascii ''[{"name": "github_find_repositories", "input_schema": {}}]''\<close>

definition session_file :: path where
  "session_file = [ascii ''data'', ascii ''session.jsonl'']"

definition min_line :: ustr where
  \<open>min_line = ascii ''{"request":{},"response":{}}\<newline>''\<close>

definition min_example :: TrainingExample where
  "min_example =
     \<lparr> input_text = ascii ''<|system|>\<newline>\<newline><|end|>'',
       output_text = JStr [],
       metadata = \<lparr> has_tools = False, num_messages = 0, response_type = ascii ''text'' \<rparr> \<rparr>"

definition bad_line :: ustr where
  \<open>bad_line = ascii ''{bad\<newline>''\<close>

definition list_line :: ustr where
  \<open>list_line = ascii ''[]\<newline>''\<close>

section \<open>What the loader does with one line\<close>

text \<open>
  The example a line contributes: none for a blank line and for a line that raises.
\<close>

definition line_example :: "world \<Rightarrow> bool \<Rightarrow> bool \<Rightarrow> ustr \<Rightarrow> TrainingExample option" where
  "line_example w ip ic line =
     (if blank line then None
      else (case read_line w ip ic line of Inr ex \<Rightarrow> Some ex | Inl e \<Rightarrow> None))"

text \<open>
  The warning for a line that is not valid JSON, or whose turn lacks a required key.
\<close>

definition line_warning :: "world \<Rightarrow> bool \<Rightarrow> bool \<Rightarrow> path \<Rightarrow> nat \<times> ustr \<Rightarrow> warning option" where
  "line_warning w ip ic file_path numbered =
     (case numbered of
        (line_num, line) \<Rightarrow>
          if blank line then None
          else (case json_loads (float_repr w) line of
                  Inl e \<Rightarrow> (if e = JSONDecodeError then Some (InvalidJSON file_path line_num)
                            else None)
                | Inr turn_data \<Rightarrow>
                    (case process_session_turn w turn_data ip ic of
                       Inl (KeyError k) \<Rightarrow> Some (MissingKey file_path line_num k)
                     | _ \<Rightarrow> None)))"

text \<open>A line the two handlers cover: blank, an example, or one of the two warnings.\<close>

definition tolerated :: "world \<Rightarrow> bool \<Rightarrow> bool \<Rightarrow> ustr \<Rightarrow> bool" where
  "tolerated w ip ic line =
     (blank line \<or> line_example w ip ic line \<noteq> None
      \<or> line_warning w ip ic [] (0, line) \<noteq> None)"

text \<open>What the consumer observes for one numbered line of that kind.\<close>

definition line_event :: "world \<Rightarrow> bool \<Rightarrow> bool \<Rightarrow> path \<Rightarrow> nat \<times> ustr \<Rightarrow> event option" where
  "line_event w ip ic file_path numbered =
     (case line_example w ip ic (snd numbered) of
        Some ex \<Rightarrow> Some (Yield ex)
      | None \<Rightarrow> map_option Warning (line_warning w ip ic file_path numbered))"

section \<open>Properties\<close>

subsection \<open>Basic facts\<close>

lemma py_bind_Inr_iff: "py_bind r f = Inr y \<longleftrightarrow> (\<exists>x. r = Inr x \<and> f x = Inr y)"
  by (cases r) (simp_all add: py_bind_def)

lemma py_bind_Inr [simp]: "py_bind (Inr x) f = f x"
  by (simp add: py_bind_def)

lemma py_bind_Inl [simp]: "py_bind (Inl e) f = Inl e"
  by (simp add: py_bind_def)

lemma ascii_eq_iff [simp]: "ascii a = ascii b \<longleftrightarrow> a = b"
  by (simp add: ascii_def inj_of_char)

text \<open>What a successful call of \<open>process_session_turn\<close> went through.\<close>

lemma process_session_turn_Inr:
  assumes "process_session_turn w turn_data ip ic = Inr ex"
  obtains request response original_system enhanced_system tools messages parts
    output_content n
  where "py_getitem turn_data (ascii ''request'') = Inr request"
    and "py_getitem turn_data (ascii ''response'') = Inr response"
    and "py_get request (ascii ''system'') (JStr []) = Inr original_system"
    and "inject_system_additions original_system ip = Inr enhanced_system"
    and "resolve_tools w request ic = Inr tools"
    and "py_get request (ascii ''messages'') (JArr []) = Inr messages"
    and "message_parts w messages = Inr parts"
    and "py_get response (ascii ''content'') (JStr []) = Inr output_content"
    and "py_len messages = Inr n"
    and "ex = \<lparr> input_text = join (ascii ''\<newline>\<newline>'')
                    (block (ascii ''system'') (py_str w enhanced_system)
                       # tools_parts tools @ parts),
                output_text = (if is_list output_content then JStr (dumps output_content)
                               else output_content),
                metadata = \<lparr> has_tools = (tools \<noteq> JNull), num_messages = n,
                             response_type = (if is_list output_content
                                              then ascii ''tool_calls''
                                              else ascii ''text'') \<rparr> \<rparr>"
  using assms unfolding process_session_turn_def py_bind_Inr_iff by blast

text \<open>Facts for evaluating the fixtures.\<close>

lemma ascii_append [simp]: "ascii a @ ascii b = ascii (a @ b)"
  by (simp add: ascii_def)

lemma ascii_append_assoc [simp]: "ascii a @ ascii b @ s = ascii (a @ b) @ s"
  by (simp add: ascii_def)

lemma ascii_Nil [simp]: "ascii [] = []"
  by (simp add: ascii_def)

lemma test_world_sel [simp]:
  "path_exists (test_world c fs) d = (d = ascii ''data'')"
  "path_glob (test_world c fs) d p = (if p = ascii ''*.jsonl'' then map fst fs else [])"
  "open_lines (test_world c fs) = map_of fs"
  "catalogue_text (test_world c fs) = c"
  "float_repr (test_world c fs) = (\<lambda>s. s)"
  by (simp_all add: test_world_def)

lemma min_line_loads:
  "json_loads (\<lambda>s. s) min_line = Inr (JObj [(ascii ''request'', JObj []), (ascii ''response'', JObj [])])"
  by code_simp

lemma bad_line_loads: "json_loads (\<lambda>s. s) bad_line = Inl JSONDecodeError"
  by code_simp

lemma list_line_loads: "json_loads (\<lambda>s. s) list_line = Inr (JArr [])"
  by code_simp

lemma lines_not_blank: "\<not> blank min_line" "\<not> blank bad_line" "\<not> blank list_line"
  by (simp_all add: blank_def py_isspace_def min_line_def bad_line_def list_line_def ascii_def)

lemma min_turn_example:
  "process_session_turn w (JObj [(ascii ''request'', JObj []), (ascii ''response'', JObj [])])
     False False = Inr min_example"
  by (simp add: process_session_turn_def py_getitem_def py_get_def inject_system_additions_def
      resolve_tools_def message_parts_def py_len_def tools_parts_def truthy_def is_list_def
      min_example_def block_def py_str_def)

lemma list_turn_raises: "process_session_turn w (JArr []) ip ic = Inl TypeError"
  by (simp add: process_session_turn_def py_getitem_def)

lemma min_turn_needs_catalogue:
  "process_session_turn w (JObj [(ascii ''request'', JObj []), (ascii ''response'', JObj [])])
     False True = py_bind (load_tool_catalogue w) (\<lambda>tools.
       process_session_turn w
         (JObj [(ascii ''request'', JObj [(ascii ''tools'', tools)]), (ascii ''response'', JObj [])])
         False False)"
  by (cases "load_tool_catalogue w")
     (simp_all add: process_session_turn_def py_getitem_def py_get_def
        inject_system_additions_def resolve_tools_def)

lemma andthen_simps [simp]:
  "andthen (evs, None) later = (evs @ fst later, snd later)"
  "andthen (evs, Some e) later = (evs, Some e)"
  by (simp_all add: andthen_def)

lemma andthen_assoc: "andthen (andthen a b) c = andthen a (andthen b c)"
  by (cases a, cases b, cases c) (auto simp add: andthen_def split: option.splits)

lemma andthen_empty [simp]: "andthen ([], None) later = later"
  by (simp add: andthen_def)

lemma load_training_data_append:
  "load_training_data w data_dir (earlier @ later) ip ic
     = andthen (load_training_data w data_dir earlier ip ic)
         (load_training_data w data_dir later ip ic)"
proof (induction earlier)
  case Nil
  show ?case by simp
next
  case (Cons pattern earlier)
  show ?case
    by (cases "load_session_files w data_dir pattern") (simp_all add: Cons.IH andthen_assoc)
qed

subsection \<open>The preamble\<close>

text \<open>
  C7. With the flag disabled \<open>inject_system_additions\<close> returns the prompt as it is;
  with the flag enabled it returns the fixed preamble, a blank line (two newlines)
  and the original prompt, in this order.
\<close>

theorem inject_system_additions_preamble:
  "inject_system_additions system_prompt False = Inr system_prompt \<and>
   inject_system_additions (JStr s) True
     = Inr (JStr (TOOL_PREAMBLE @ ascii ''\<newline>\<newline>'' @ s))"
  by (simp add: inject_system_additions_def)

subsection \<open>The output text\<close>

text \<open>
  C2. When the response content is a string, the example's response type is
  \<open>text\<close> and its output is that string, unchanged.
\<close>

theorem text_response_verbatim:
  assumes "process_session_turn w turn_data ip ic = Inr ex"
    and "py_getitem turn_data (ascii ''response'') = Inr response"
    and "py_get response (ascii ''content'') (JStr []) = Inr (JStr s)"
  shows "response_type (metadata ex) = ascii ''text'' \<and> output_text ex = JStr s"
  using assms by (elim process_session_turn_Inr) (auto simp add: is_list_def)

theorem text_response_verbatim_witness:
  "process_session_turn (test_world None []) hello_turn False False
     = Inr \<lparr> input_text = ascii
                 ''<|system|>\<newline>You are a test assistant.\<newline><|end|>\<newline>\<newline><|user|>\<newline>Hello!\<newline><|end|>'',
               output_text = JStr (ascii ''Hi there!''),
               metadata = \<lparr> has_tools = False, num_messages = 1,
                            response_type = ascii ''text'' \<rparr> \<rparr>
   \<and> response_type (metadata (\<lparr> input_text = ascii
                 ''<|system|>\<newline>You are a test assistant.\<newline><|end|>\<newline>\<newline><|user|>\<newline>Hello!\<newline><|end|>'',
               output_text = JStr (ascii ''Hi there!''),
               metadata = \<lparr> has_tools = False, num_messages = 1,
                            response_type = ascii ''text'' \<rparr> \<rparr>)) = ascii ''text''"
proof -
  have run: "process_session_turn (test_world None []) hello_turn False False
     = Inr \<lparr> input_text = ascii
                 ''<|system|>\<newline>You are a test assistant.\<newline><|end|>\<newline>\<newline><|user|>\<newline>Hello!\<newline><|end|>'',
               output_text = JStr (ascii ''Hi there!''),
               metadata = \<lparr> has_tools = False, num_messages = 1,
                            response_type = ascii ''text'' \<rparr> \<rparr>"
    by code_simp
  have resp: "py_getitem hello_turn (ascii ''response'')
     = Inr (JObj [(ascii ''role'', JStr (ascii ''assistant'')),
                  (ascii ''content'', JStr (ascii ''Hi there!''))])"
    by code_simp
  have cont: "py_get (JObj [(ascii ''role'', JStr (ascii ''assistant'')),
                  (ascii ''content'', JStr (ascii ''Hi there!''))]) (ascii ''content'') (JStr [])
     = Inr (JStr (ascii ''Hi there!''))"
    by code_simp
  from text_response_verbatim [OF run resp cont] run show ?thesis by simp
qed

text \<open>
  C10. A response without a \<open>content\<close> field is processed exactly as one whose
  content is the empty string: no error comes from the missing field, the output is
  the empty string and the response type is \<open>text\<close>.
\<close>

lemma map_of_dict_set: "map_of (dict_set k v ps) = (map_of ps)(k \<mapsto> v)"
  by (induction ps) (auto simp add: fun_eq_iff)

theorem missing_content_defaults:
  assumes "map_of turn (ascii ''response'') = Some (JObj ps)"
    and "map_of ps (ascii ''content'') = None"
  shows "process_session_turn w (JObj turn) ip ic
           = process_session_turn w
               (JObj (dict_set (ascii ''response'')
                  (JObj (dict_set (ascii ''content'') (JStr []) ps)) turn)) ip ic
         \<and> (\<forall>ex. process_session_turn w (JObj turn) ip ic = Inr ex \<longrightarrow>
                output_text ex = JStr [] \<and> response_type (metadata ex) = ascii ''text'')"
proof -
  have content: "py_get (JObj ps) (ascii ''content'') (JStr []) = Inr (JStr [])"
    using assms(2) by (simp add: py_get_def)
  have response: "py_getitem (JObj turn) (ascii ''response'') = Inr (JObj ps)"
    using assms(1) by (simp add: py_getitem_def)
  have same: "process_session_turn w (JObj turn) ip ic
           = process_session_turn w
               (JObj (dict_set (ascii ''response'')
                  (JObj (dict_set (ascii ''content'') (JStr []) ps)) turn)) ip ic"
    using assms
    by (simp add: process_session_turn_def py_getitem_def py_get_def map_of_dict_set)
  have "output_text ex = JStr [] \<and> response_type (metadata ex) = ascii ''text''"
    if "process_session_turn w (JObj turn) ip ic = Inr ex" for ex
    using that response content
    by (elim process_session_turn_Inr) (auto simp add: is_list_def)
  with same show ?thesis by blast
qed

theorem missing_content_defaults_witness:
  "process_session_turn (test_world None []) no_content_turn True False
     = process_session_turn (test_world None [])
         (JObj [(ascii ''request'', hello_request),
                (ascii ''response'',
                   JObj [(ascii ''role'', JStr (ascii ''assistant'')),
                         (ascii ''content'', JStr [])])]) True False
   \<and> map_sum id (\<lambda>ex. (output_text ex, response_type (metadata ex)))
         (process_session_turn (test_world None []) no_content_turn True False)
       = Inr (JStr [], ascii ''text'')"
proof -
  have a: "map_of [(ascii ''request'', hello_request),
                   (ascii ''response'', JObj [(ascii ''role'', JStr (ascii ''assistant''))])]
             (ascii ''response'') = Some (JObj [(ascii ''role'', JStr (ascii ''assistant''))])"
    by simp
  have b: "map_of [(ascii ''role'', JStr (ascii ''assistant''))] (ascii ''content'') = None"
    by simp
  obtain ex where ex: "process_session_turn (test_world None []) no_content_turn True False = Inr ex"
    by (simp add: process_session_turn_def no_content_turn_def hello_request_def test_world_def
        py_getitem_def py_get_def inject_system_additions_def resolve_tools_def
        message_parts_def message_part_def py_len_def)
  from missing_content_defaults [OF a b, of "test_world None []" True False] ex
  show ?thesis by (simp add: no_content_turn_def)
qed

subsection \<open>The metadata\<close>

text \<open>
  C8. \<open>num_messages\<close> is the length of the request's \<open>messages\<close>, and it is the same
  whatever the injection flags and the catalogue are.
\<close>

theorem num_messages_counts:
  assumes "process_session_turn w turn_data ip ic = Inr ex"
    and "py_getitem turn_data (ascii ''request'') = Inr request"
    and "py_get request (ascii ''messages'') (JArr []) = Inr messages"
  shows "py_len messages = Inr (num_messages (metadata ex))
         \<and> (\<forall>msgs. messages = JArr msgs \<longrightarrow> num_messages (metadata ex) = length msgs)
         \<and> (\<forall>w' ip' ic' ex'. process_session_turn w' turn_data ip' ic' = Inr ex' \<longrightarrow>
                num_messages (metadata ex') = num_messages (metadata ex))"
proof -
  have len: "py_len messages = Inr (num_messages (metadata ex))"
    using assms by (elim process_session_turn_Inr) auto
  have "num_messages (metadata ex') = num_messages (metadata ex)"
    if "process_session_turn w' turn_data ip' ic' = Inr ex'" for w' ip' ic' ex'
  proof -
    have "py_len messages = Inr (num_messages (metadata ex'))"
      using that assms(2,3) by (elim process_session_turn_Inr) auto
    with len show ?thesis by simp
  qed
  with len show ?thesis by (auto simp add: py_len_def)
qed

theorem num_messages_counts_witness:
  "map_sum id (\<lambda>ex. num_messages (metadata ex))
     (process_session_turn (test_world (Some small_catalogue) []) hello_turn True True) = Inr 1
   \<and> map_sum id (\<lambda>ex. num_messages (metadata ex))
     (process_session_turn (test_world None []) hello_turn False False) = Inr 1"
proof -
  obtain ex where ex: "process_session_turn (test_world None []) hello_turn False False = Inr ex"
    by (simp add: process_session_turn_def hello_turn_def hello_request_def test_world_def
        py_getitem_def py_get_def inject_system_additions_def resolve_tools_def
        message_parts_def message_part_def py_len_def)
  have req: "py_getitem hello_turn (ascii ''request'') = Inr hello_request"
    by (simp add: hello_turn_def py_getitem_def)
  have msgs: "py_get hello_request (ascii ''messages'') (JArr [])
      = Inr (JArr [JObj [(ascii ''role'', JStr (ascii ''user'')),
                         (ascii ''content'', JStr (ascii ''Hello!''))]])"
    by (simp add: hello_request_def py_get_def)
  have cat: "load_tool_catalogue (test_world (Some small_catalogue) [])
      = Inr (JArr [JObj [(ascii ''name'', JStr (ascii ''github_find_repositories'')),
                         (ascii ''input_schema'', JObj [])]])"
    by code_simp
  obtain ex' where ex': "process_session_turn (test_world (Some small_catalogue) [])
      hello_turn True True = Inr ex'"
    by (simp add: process_session_turn_def hello_turn_def hello_request_def
        py_getitem_def py_get_def inject_system_additions_def resolve_tools_def cat
        message_parts_def message_part_def py_len_def)
  from num_messages_counts [OF ex req msgs] ex ex' show ?thesis by simp
qed

subsection \<open>The tools value and the tools block\<close>

text \<open>
  C4. The tools value the example is built from, seen in the example itself. When
  injection is enabled and the request has no tools (the key is absent or null), the
  catalogue is loaded and \<open>has_tools\<close> and the tools block are those of the loaded
  catalogue. When the request has tools of its own, they are used whatever the flag:
  \<open>has_tools\<close> is true, the tools block is theirs, and the flag and the catalogue
  document change nothing in the result. When injection is disabled and the request
  has none, \<open>has_tools\<close> is false and the input has no tools part.
\<close>

theorem catalog_attachment:
  assumes "process_session_turn w turn_data ip ic = Inr ex"
    and "py_getitem turn_data (ascii ''request'') = Inr request"
    and "py_get request (ascii ''system'') (JStr []) = Inr original_system"
    and "inject_system_additions original_system ip = Inr enhanced_system"
    and "py_get request (ascii ''tools'') JNull = Inr tools"
    and "py_get request (ascii ''messages'') (JArr []) = Inr messages"
    and "message_parts w messages = Inr parts"
  shows "(ic \<and> tools = JNull \<longrightarrow>
            (\<exists>catalogue. load_tool_catalogue w = Inr catalogue
               \<and> has_tools (metadata ex) = (catalogue \<noteq> JNull)
               \<and> input_text ex = join (ascii ''\<newline>\<newline>'')
                    (block (ascii ''system'') (py_str w enhanced_system)
                       # (if truthy catalogue
                          then [block (ascii ''tools'') (dumps_indent 0 catalogue)] else [])
                       @ parts)))
         \<and> (tools \<noteq> JNull \<longrightarrow>
            has_tools (metadata ex)
            \<and> input_text ex = join (ascii ''\<newline>\<newline>'')
                 (block (ascii ''system'') (py_str w enhanced_system)
                    # (if truthy tools
                       then [block (ascii ''tools'') (dumps_indent 0 tools)] else [])
                    @ parts)
            \<and> (\<forall>c ic'. process_session_turn (w\<lparr>catalogue_text := c\<rparr>) turn_data ip ic'
                          = Inr ex))
         \<and> (\<not> ic \<and> tools = JNull \<longrightarrow>
            \<not> has_tools (metadata ex)
            \<and> input_text ex = join (ascii ''\<newline>\<newline>'')
                 (block (ascii ''system'') (py_str w enhanced_system) # parts))"
proof -
  have own: "process_session_turn (w\<lparr>catalogue_text := c\<rparr>) turn_data ip ic' = Inr ex"
    if "tools \<noteq> JNull" for c ic'
  proof -
    have "resolve_tools (w\<lparr>catalogue_text := c\<rparr>) request ic' = resolve_tools w request ic"
      using that assms(5) by (simp add: resolve_tools_def)
    moreover have str: "py_str (w\<lparr>catalogue_text := c\<rparr>) = py_str w"
      by (simp add: fun_eq_iff py_str_def split: json.splits)
    moreover have "message_parts (w\<lparr>catalogue_text := c\<rparr>) = message_parts w"
    proof -
      have "message_list_parts (w\<lparr>catalogue_text := c\<rparr>) msgs = message_list_parts w msgs"
        for msgs
        by (induction msgs) (simp_all add: message_part_def str)
      then show ?thesis by (simp add: fun_eq_iff message_parts_def split: json.splits)
    qed
    ultimately have "process_session_turn (w\<lparr>catalogue_text := c\<rparr>) turn_data ip ic'
        = process_session_turn w turn_data ip ic"
      using assms(2) by (simp add: process_session_turn_def)
    with assms(1) show ?thesis by simp
  qed
  obtain effective where eff: "resolve_tools w request ic = Inr effective"
    and has: "has_tools (metadata ex) = (effective \<noteq> JNull)"
    and inp: "input_text ex = join (ascii ''\<newline>\<newline>'')
                 (block (ascii ''system'') (py_str w enhanced_system)
                    # tools_parts effective @ parts)"
    using assms by (elim process_session_turn_Inr) auto
  have "load_tool_catalogue w = Inr effective" if "ic" "tools = JNull"
    using that eff assms(5) by (simp add: resolve_tools_def)
  moreover have "effective = tools" if "tools \<noteq> JNull"
    using that eff assms(5) by (simp add: resolve_tools_def)
  moreover have "effective = JNull" if "\<not> ic" "tools = JNull"
    using that eff assms(5) by (simp add: resolve_tools_def)
  ultimately show ?thesis
    using has inp own by (auto simp add: tools_parts_def truthy_def)
qed

theorem catalog_attachment_witness:
  \<open>map_sum id (\<lambda>ex. (has_tools (metadata ex), input_text ex))
     (process_session_turn (test_world (Some small_catalogue) []) hello_turn False True)
     = Inr (True, ascii
         ''<|system|>\<newline>You are a test assistant.\<newline><|end|>\<newline>\<newline><|tools|>\<newline>[\<newline>  {\<newline>    "name": "github_find_repositories",\<newline>    "input_schema": {}\<newline>  }\<newline>]\<newline><|end|>\<newline>\<newline><|user|>\<newline>Hello!\<newline><|end|>'')\<close>
proof -
  have cat: "load_tool_catalogue (test_world (Some small_catalogue) [])
      = Inr (JArr [JObj [(ascii ''name'', JStr (ascii ''github_find_repositories'')),
                         (ascii ''input_schema'', JObj [])]])"
    by code_simp
  have req: "py_getitem hello_turn (ascii ''request'') = Inr hello_request"
    by (simp add: hello_turn_def py_getitem_def)
  have sys: "py_get hello_request (ascii ''system'') (JStr [])
      = Inr (JStr (ascii ''You are a test assistant.''))"
    by (simp add: hello_request_def py_get_def)
  have inj: "inject_system_additions (JStr (ascii ''You are a test assistant.'')) False
      = Inr (JStr (ascii ''You are a test assistant.''))"
    by (simp add: inject_system_additions_def)
  have none: "py_get hello_request (ascii ''tools'') JNull = Inr JNull"
    by (simp add: hello_request_def py_get_def)
  have msgs: "py_get hello_request (ascii ''messages'') (JArr [])
      = Inr (JArr [JObj [(ascii ''role'', JStr (ascii ''user'')),
                         (ascii ''content'', JStr (ascii ''Hello!''))]])"
    by (simp add: hello_request_def py_get_def)
  have parts: "message_parts (test_world (Some small_catalogue) [])
      (JArr [JObj [(ascii ''role'', JStr (ascii ''user'')),
                   (ascii ''content'', JStr (ascii ''Hello!''))]])
      = Inr [ascii ''<|user|>\<newline>Hello!\<newline><|end|>'']"
    by (simp add: message_parts_def message_part_def py_getitem_def block_def py_str_def)
  have resp: "py_getitem hello_turn (ascii ''response'')
      = Inr (JObj [(ascii ''role'', JStr (ascii ''assistant'')),
                   (ascii ''content'', JStr (ascii ''Hi there!''))])"
    by (simp add: hello_turn_def py_getitem_def)
  have cont: "py_get (JObj [(ascii ''role'', JStr (ascii ''assistant'')),
                   (ascii ''content'', JStr (ascii ''Hi there!''))]) (ascii ''content'') (JStr [])
      = Inr (JStr (ascii ''Hi there!''))"
    by (simp add: py_get_def)
  obtain ex where ex: "process_session_turn (test_world (Some small_catalogue) [])
      hello_turn False True = Inr ex"
    by (simp add: process_session_turn_def req resp cont sys inj msgs parts resolve_tools_def
        none cat py_len_def)
  have rendered: \<open>dumps_indent 0 (JArr [JObj [(ascii ''name'', JStr (ascii ''github_find_repositories'')),
                         (ascii ''input_schema'', JObj [])]])
      = ascii ''[\<newline>  {\<newline>    "name": "github_find_repositories",\<newline>    "input_schema": {}\<newline>  }\<newline>]''\<close>
    by code_simp
  have "has_tools (metadata ex) \<and> input_text ex = ascii
         ''<|system|>\<newline>You are a test assistant.\<newline><|end|>\<newline>\<newline><|tools|>\<newline>[\<newline>  {\<newline>    \"name\": \"github_find_repositories\",\<newline>    \"input_schema\": {}\<newline>  }\<newline>]\<newline><|end|>\<newline>\<newline><|user|>\<newline>Hello!\<newline><|end|>''"
    using catalog_attachment [OF ex req sys inj none msgs parts] cat
    by (simp add: truthy_def rendered block_def py_str_def del: dumps_indent.simps)
  with ex show ?thesis by simp
qed

text \<open>
  C5, as the code has it. The tools block is written when the tools value is true in
  Python's sense: not null and not an empty list, empty dict, empty string, zero or
  false. Then the input is the system block, the tools block (the tools document
  printed with an indentation of two spaces) and the message blocks, in this order,
  separated by blank lines. Otherwise, and in particular when the tools value is null,
  the input is the system block followed by the message blocks, with no part for the
  tools in between.
\<close>

theorem tools_block_placement:
  assumes "process_session_turn w turn_data ip ic = Inr ex"
    and "py_getitem turn_data (ascii ''request'') = Inr request"
    and "py_get request (ascii ''system'') (JStr []) = Inr original_system"
    and "inject_system_additions original_system ip = Inr enhanced_system"
    and "resolve_tools w request ic = Inr tools"
    and "py_get request (ascii ''messages'') (JArr []) = Inr messages"
    and "message_parts w messages = Inr parts"
  shows "(truthy tools \<longrightarrow>
            input_text ex = join (ascii ''\<newline>\<newline>'')
              (block (ascii ''system'') (py_str w enhanced_system)
                 # block (ascii ''tools'') (dumps_indent 0 tools) # parts))
         \<and> (\<not> truthy tools \<longrightarrow>
            input_text ex = join (ascii ''\<newline>\<newline>'')
              (block (ascii ''system'') (py_str w enhanced_system) # parts))
         \<and> (tools = JNull \<longrightarrow> \<not> truthy tools)"
  using assms
  by (elim process_session_turn_Inr) (auto simp add: tools_parts_def truthy_def)

theorem tools_block_placement_witness:
  \<open>map_sum id input_text
     (process_session_turn (test_world None []) own_tools_turn False False)
     = Inr (ascii ''<|system|>\<newline>System prompt\<newline><|end|>\<newline>\<newline><|tools|>\<newline>{\<newline>  "some": "tools"\<newline>}\<newline><|end|>'')\<close>
proof -
  obtain ex where ex: "process_session_turn (test_world None []) own_tools_turn False False = Inr ex"
    by (simp add: process_session_turn_def own_tools_turn_def own_tools_request_def
        py_getitem_def py_get_def inject_system_additions_def resolve_tools_def
        message_parts_def py_len_def)
  have req: "py_getitem own_tools_turn (ascii ''request'') = Inr own_tools_request"
    by (simp add: own_tools_turn_def py_getitem_def)
  have sys: "py_get own_tools_request (ascii ''system'') (JStr [])
      = Inr (JStr (ascii ''System prompt''))"
    by (simp add: own_tools_request_def py_get_def)
  have inj: "inject_system_additions (JStr (ascii ''System prompt'')) False
      = Inr (JStr (ascii ''System prompt''))"
    by (simp add: inject_system_additions_def)
  have tools: "resolve_tools (test_world None []) own_tools_request False
      = Inr (JObj [(ascii ''some'', JStr (ascii ''tools''))])"
    by (simp add: own_tools_request_def resolve_tools_def py_get_def)
  have msgs: "py_get own_tools_request (ascii ''messages'') (JArr []) = Inr (JArr [])"
    by (simp add: own_tools_request_def py_get_def)
  have parts: "message_parts (test_world None []) (JArr []) = Inr []"
    by (simp add: message_parts_def)
  have true: "truthy (JObj [(ascii ''some'', JStr (ascii ''tools''))])"
    by (simp add: truthy_def)
  have rendered: \<open>join (ascii ''\<newline>\<newline>'')
      [block (ascii ''system'') (py_str (test_world None []) (JStr (ascii ''System prompt''))),
       block (ascii ''tools'') (dumps_indent 0 (JObj [(ascii ''some'', JStr (ascii ''tools''))]))]
     = ascii ''<|system|>\<newline>System prompt\<newline><|end|>\<newline>\<newline><|tools|>\<newline>{\<newline>  "some": "tools"\<newline>}\<newline><|end|>''\<close>
    by code_simp
  from tools_block_placement [OF ex req sys inj tools msgs parts] true rendered ex
  show ?thesis by simp
qed

text \<open>
  The claim fails for a request whose own tools are an empty list: the tools value
  is not null (\<open>has_tools\<close> is true), and the input has no tools block.
\<close>

theorem tools_block_counterexample:
  "resolve_tools (test_world None []) empty_tools_request False = Inr (JArr [])
   \<and> JArr [] \<noteq> JNull
   \<and> process_session_turn (test_world None []) empty_tools_turn False False
       = Inr \<lparr> input_text = ascii
                   ''<|system|>\<newline>S\<newline><|end|>\<newline>\<newline><|user|>\<newline>Hello!\<newline><|end|>'',
                 output_text = JStr (ascii ''Hi there!''),
                 metadata = \<lparr> has_tools = True, num_messages = 1,
                              response_type = ascii ''text'' \<rparr> \<rparr>
   \<and> \<not> py_in (ascii ''<|tools|>'')
         (ascii ''<|system|>\<newline>S\<newline><|end|>\<newline>\<newline><|user|>\<newline>Hello!\<newline><|end|>'')"
  by code_simp

subsection \<open>Finding the session files\<close>

text \<open>
  C9, as the code has it. \<open>DataDirectoryMissing\<close> is the \<open>FileNotFoundError\<close> for
  the data directory and \<open>NoFilesMatched\<close> the \<open>ValueError\<close> for the pattern. A
  missing directory ends the load at the first pattern, before anything is yielded. A
  pattern that matches no file ends the load when the loader reaches it: before
  anything is yielded when it is the first pattern, and after the events of the
  earlier patterns otherwise. A pattern that matches files gives the matching paths
  in ascending order (paths compare part by part, strings by code point).
\<close>

theorem load_session_files_outcomes:
  "(\<not> path_exists w data_dir \<longrightarrow>
      load_session_files w data_dir pattern = Inl (FileNotFoundError DataDirectory)
      \<and> load_training_data w data_dir (pattern # patterns) ip ic
          = ([], Some (FileNotFoundError DataDirectory)))
   \<and> (path_exists w data_dir \<and> path_glob w data_dir pattern = [] \<longrightarrow>
      load_session_files w data_dir pattern = Inl (ValueError pattern)
      \<and> load_training_data w data_dir (pattern # patterns) ip ic
          = ([], Some (ValueError pattern))
      \<and> (\<forall>earlier. snd (load_training_data w data_dir earlier ip ic) = None \<longrightarrow>
            load_training_data w data_dir (earlier @ pattern # patterns) ip ic
              = (fst (load_training_data w data_dir earlier ip ic),
                 Some (ValueError pattern))))
   \<and> (path_exists w data_dir \<and> path_glob w data_dir pattern \<noteq> [] \<longrightarrow>
      load_session_files w data_dir pattern = Inr (sort (path_glob w data_dir pattern))
      \<and> sorted (sort (path_glob w data_dir pattern))
      \<and> mset (sort (path_glob w data_dir pattern)) = mset (path_glob w data_dir pattern))"
proof -
  have "load_training_data w data_dir (earlier @ pattern # patterns) ip ic
          = (fst (load_training_data w data_dir earlier ip ic), Some (ValueError pattern))"
    if "path_exists w data_dir" "path_glob w data_dir pattern = []"
      and "snd (load_training_data w data_dir earlier ip ic) = None" for earlier
  proof -
    have "load_training_data w data_dir (pattern # patterns) ip ic
            = ([], Some (ValueError pattern))"
      using that(1,2) by (simp add: load_session_files_def)
    then show ?thesis
      using that(3)
      by (cases "load_training_data w data_dir earlier ip ic")
         (simp add: load_training_data_append)
  qed
  then show ?thesis
    by (simp add: load_session_files_def)
qed

theorem load_session_files_outcomes_witness:
  "load_session_files
     (test_world None [([ascii ''data'', ascii ''b.jsonl''], []),
                       ([ascii ''data'', ascii ''a.jsonl''], [])])
     (ascii ''data'') (ascii ''*.jsonl'')
     = Inr [[ascii ''data'', ascii ''a.jsonl''], [ascii ''data'', ascii ''b.jsonl'']]
   \<and> load_training_data (test_world None []) (ascii ''nowhere'') [ascii ''*.jsonl''] True True
       = ([], Some (FileNotFoundError DataDirectory))
   \<and> load_training_data (test_world None []) (ascii ''data'') [ascii ''*.jsonl''] True True
       = ([], Some (ValueError (ascii ''*.jsonl'')))
   \<and> load_training_data (test_world None [(session_file, [min_line])]) (ascii ''data'')
         ([ascii ''*.jsonl''] @ [ascii ''*.txt'']) False False
       = ([Yield min_example], Some (ValueError (ascii ''*.txt'')))"
proof -
  have b: "sort [[ascii ''data'', ascii ''b.jsonl''], [ascii ''data'', ascii ''a.jsonl'']]
      = [[ascii ''data'', ascii ''a.jsonl''], [ascii ''data'', ascii ''b.jsonl'']]"
    by code_simp
  have first: "load_training_data (test_world None [(session_file, [min_line])]) (ascii ''data'')
         [ascii ''*.jsonl''] False False = ([Yield min_example], None)"
    by (simp add: load_session_files_def read_line_def emit_def
        lines_not_blank min_line_loads min_turn_example)
  from b first
    load_session_files_outcomes [of "test_world None [([ascii ''data'', ascii ''b.jsonl''], []),
                       ([ascii ''data'', ascii ''a.jsonl''], [])]" "ascii ''data''" "ascii ''*.jsonl''"]
    load_session_files_outcomes [of "test_world None []" "ascii ''nowhere''" "ascii ''*.jsonl''" "[]" True True]
    load_session_files_outcomes [of "test_world None []" "ascii ''data''" "ascii ''*.jsonl''" "[]" True True]
    load_session_files_outcomes [of "test_world None [(session_file, [min_line])]" "ascii ''data''"
      "ascii ''*.txt''" "[]" False False, THEN conjunct2, THEN conjunct1, THEN mp,
      THEN conjunct2, THEN conjunct2, THEN spec, of "[ascii ''*.jsonl'']"]
  show ?thesis by simp
qed

text \<open>
  The claim fails when a later pattern matches nothing: the examples of the earlier
  patterns have been yielded when the \<open>ValueError\<close> is raised.
\<close>

theorem later_pattern_counterexample:
  "path_exists (test_world None [(session_file, [min_line])]) (ascii ''data'')
   \<and> path_glob (test_world None [(session_file, [min_line])]) (ascii ''data'') (ascii ''*.txt'') = []
   \<and> load_training_data (test_world None [(session_file, [min_line])]) (ascii ''data'')
         [ascii ''*.jsonl'', ascii ''*.txt''] False False
       = ([Yield min_example], Some (ValueError (ascii ''*.txt'')))"
  by (simp add: load_session_files_def read_line_def emit_def
      lines_not_blank min_line_loads min_turn_example)


subsection \<open>Reading the lines of a file\<close>

lemma snd_emit [simp]: "snd (emit ev r) = snd r"
  by (simp add: emit_def)

lemma fst_emit [simp]: "fst (emit ev r) = ev # fst r"
  by (simp add: emit_def)

lemma examples_emit [simp]:
  "examples (emit (Yield ex) r) = ex # examples r"
  "examples (emit (Warning x) r) = examples r"
  by (simp_all add: examples_def)

lemma line_warning_anywhere:
  "line_warning w ip ic file_path (n, line) = None
     \<longleftrightarrow> line_warning w ip ic file_path' (n', line) = None"
  by (simp add: line_warning_def split: sum.splits py_error.splits)

text \<open>One step of the loop, for each kind of line.\<close>

lemma read_lines_blank:
  "blank line \<Longrightarrow>
     read_lines w ip ic file_path n (line # rest) = read_lines w ip ic file_path (Suc n) rest"
  by simp

lemma read_lines_yield:
  "\<not> blank line \<Longrightarrow> read_line w ip ic line = Inr ex \<Longrightarrow>
     read_lines w ip ic file_path n (line # rest)
       = emit (Yield ex) (read_lines w ip ic file_path (Suc n) rest)"
  by simp

lemma read_lines_invalid_json:
  "\<not> blank line \<Longrightarrow> json_loads (float_repr w) line = Inl JSONDecodeError \<Longrightarrow>
     read_lines w ip ic file_path n (line # rest)
       = emit (Warning (InvalidJSON file_path n)) (read_lines w ip ic file_path (Suc n) rest)"
  by (simp add: read_line_def)

lemma read_lines_missing_key:
  "\<not> blank line \<Longrightarrow> json_loads (float_repr w) line = Inr turn_data \<Longrightarrow>
   process_session_turn w turn_data ip ic = Inl (KeyError k) \<Longrightarrow>
     read_lines w ip ic file_path n (line # rest)
       = emit (Warning (MissingKey file_path n k)) (read_lines w ip ic file_path (Suc n) rest)"
  by (simp add: read_line_def)

lemma read_lines_abort:
  "\<not> blank line \<Longrightarrow> read_line w ip ic line = Inl e \<Longrightarrow> e \<noteq> JSONDecodeError \<Longrightarrow>
   \<forall>k. e \<noteq> KeyError k \<Longrightarrow>
     read_lines w ip ic file_path n (line # rest) = ([], Some e)"
  by (cases e) simp_all

lemma read_lines_tolerated_step:
  assumes "tolerated w ip ic line"
  shows "read_lines w ip ic file_path n (line # rest)
     = (case line_event w ip ic file_path (n, line) of
          None \<Rightarrow> read_lines w ip ic file_path (Suc n) rest
        | Some ev \<Rightarrow> emit ev (read_lines w ip ic file_path (Suc n) rest))"
proof (cases "blank line")
  case True
  then show ?thesis
    by (simp add: line_event_def line_example_def line_warning_def)
next
  case False
  show ?thesis
  proof (cases "json_loads (float_repr w) line")
    case (Inl e)
    with False assms have "e = JSONDecodeError"
      by (simp add: tolerated_def line_example_def line_warning_def read_line_def
          split: if_splits)
    with False Inl show ?thesis
      by (simp add: line_event_def line_example_def line_warning_def read_line_def)
  next
    case (Inr turn_data)
    show ?thesis
    proof (cases "process_session_turn w turn_data ip ic")
      case (Inr ex)
      with False \<open>json_loads (float_repr w) line = Inr turn_data\<close> show ?thesis
        by (simp add: line_event_def line_example_def read_line_def)
    next
      case (Inl e)
      with False assms \<open>json_loads (float_repr w) line = Inr turn_data\<close>
      obtain k where "e = KeyError k"
        by (cases e) (simp_all add: tolerated_def line_example_def line_warning_def read_line_def)
      with False Inl \<open>json_loads (float_repr w) line = Inr turn_data\<close> show ?thesis
        by (simp add: line_event_def line_example_def line_warning_def read_line_def)
    qed
  qed
qed

lemma line_event_example:
  "(case line_event w ip ic file_path (n, line) of
      None \<Rightarrow> [] | Some (Yield ex) \<Rightarrow> [ex] | Some (Warning x) \<Rightarrow> [])
     = (case line_example w ip ic line of None \<Rightarrow> [] | Some ex \<Rightarrow> [ex])"
  by (cases "line_example w ip ic line")
     (auto simp add: line_event_def split: option.splits)

text \<open>
  C3, as the code has it. In a file whose lines are all blank, valid, not valid JSON
  or turns that lack a required key, every line is handled on its own and the loop
  reaches the end of the file without an exception: a blank line gives nothing, a
  valid line its example, and each of the other lines one warning that names the
  file and the number of the line (counted from where the file starts, blank lines
  included). So the examples of the file are exactly those of its valid lines, in
  the order of the lines.
\<close>

theorem skip_and_continue:
  assumes "\<forall>line \<in> set lines. tolerated w ip ic line"
  shows "read_lines w ip ic file_path n lines
           = (List.map_filter (line_event w ip ic file_path) (zip [n..<n + length lines] lines),
              None)
         \<and> examples (read_lines w ip ic file_path n lines)
           = List.map_filter (line_example w ip ic) lines"
  using assms
proof (induction lines arbitrary: n)
  case Nil
  show ?case by (simp add: List.map_filter_simps examples_def)
next
  case (Cons line rest)
  then have tol: "tolerated w ip ic line" and rest: "\<forall>l \<in> set rest. tolerated w ip ic l"
    by simp_all
  have upt: "[n..<n + length (line # rest)] = n # [Suc n..<Suc n + length rest]"
    using upt_conv_Cons [of n "Suc n + length rest"] by simp
  note ih1 = Cons.IH [OF rest, of "Suc n", THEN conjunct1]
  note ih2 = Cons.IH [OF rest, of "Suc n", THEN conjunct2]
  have step: "read_lines w ip ic file_path n (line # rest)
     = (case line_event w ip ic file_path (n, line) of
          None \<Rightarrow> read_lines w ip ic file_path (Suc n) rest
        | Some ev \<Rightarrow> emit ev (read_lines w ip ic file_path (Suc n) rest))"
    by (rule read_lines_tolerated_step [OF tol])
  have first: "read_lines w ip ic file_path n (line # rest)
           = (List.map_filter (line_event w ip ic file_path)
                (zip [n..<n + length (line # rest)] (line # rest)), None)"
    unfolding step upt ih1
    by (cases "line_event w ip ic file_path (n, line)")
       (simp_all add: List.map_filter_simps emit_def)
  have second: "examples (read_lines w ip ic file_path n (line # rest))
           = List.map_filter (line_example w ip ic) (line # rest)"
  proof (cases "line_event w ip ic file_path (n, line)")
    case None
    then have "line_example w ip ic line = None"
      by (simp add: line_event_def split: option.splits)
    with None show ?thesis
      unfolding step by (simp add: List.map_filter_simps ih2)
  next
    case (Some ev)
    show ?thesis
    proof (cases ev)
      case (Yield ex)
      with Some have "line_example w ip ic line = Some ex"
        by (auto simp add: line_event_def split: option.splits)
      with Some Yield show ?thesis
        unfolding step by (simp add: List.map_filter_simps ih2)
    next
      case (Warning x)
      with Some have "line_example w ip ic line = None"
        by (auto simp add: line_event_def split: option.splits)
      with Some Warning show ?thesis
        unfolding step by (simp add: List.map_filter_simps ih2)
    qed
  qed
  from first second show ?case by (rule conjI)
qed

theorem skip_and_continue_witness:
  "read_lines (test_world None []) False False session_file 1 [min_line, bad_line]
     = ([Yield min_example, Warning (InvalidJSON session_file 2)], None)
   \<and> examples (read_lines (test_world None []) False False session_file 1 [min_line, bad_line])
     = [min_example]"
proof -
  have ex1: "line_example (test_world None []) False False min_line = Some min_example"
    by (simp add: line_example_def read_line_def lines_not_blank min_line_loads
        min_turn_example)
  have ex2: "line_example (test_world None []) False False bad_line = None"
    by (simp add: line_example_def read_line_def lines_not_blank bad_line_loads)
  have w2: "line_warning (test_world None []) False False file_path (n, bad_line)
      = Some (InvalidJSON file_path n)" for file_path n
    by (simp add: line_warning_def lines_not_blank bad_line_loads)
  have tol: "\<forall>line \<in> set [min_line, bad_line]. tolerated (test_world None []) False False line"
    by (simp add: tolerated_def ex1 w2)
  have events: "List.map_filter (line_event (test_world None []) False False session_file)
                  (zip [1..<1 + length [min_line, bad_line]] [min_line, bad_line])
      = [Yield min_example, Warning (InvalidJSON session_file 2)]"
    by (simp add: upt_conv_Cons List.map_filter_simps line_event_def ex1 ex2 w2)
  have yielded: "List.map_filter (line_example (test_world None []) False False)
                   [min_line, bad_line] = [min_example]"
    by (simp add: List.map_filter_simps ex1 ex2)
  show ?thesis
    by (rule skip_and_continue [OF tol, of session_file 1, unfolded events yielded])
qed

text \<open>
  The claim fails for a record that is valid JSON of the wrong shape: the line
  \<open>[]\<close> raises \<open>TypeError\<close>, which no handler catches, and the example of the valid
  line after it is never yielded.
\<close>

theorem per_record_error_counterexample:
  "load_training_data (test_world None [(session_file, [min_line])])
       (ascii ''data'') [ascii ''*.jsonl''] False False
     = ([Yield min_example], None)
   \<and> load_training_data (test_world None [(session_file, [list_line, min_line])])
       (ascii ''data'') [ascii ''*.jsonl''] False False
     = ([], Some TypeError)"
  by (simp add: load_session_files_def read_line_def emit_def andthen_def
      lines_not_blank min_line_loads list_line_loads min_turn_example list_turn_raises)

subsection \<open>A catalogue that cannot be loaded\<close>

text \<open>
  C6. A missing catalogue document ends the load: the \<open>FileNotFoundError\<close> of
  \<open>load_tool_catalogue\<close> is raised by the first line that needs the catalogue.
\<close>

lemma missing_catalogue_is_fatal:
  assumes "catalogue_text w = None"
    and "\<not> blank line"
    and "json_loads (float_repr w) line = Inr turn_data"
    and "py_getitem turn_data (ascii ''request'') = Inr request"
    and "py_getitem turn_data (ascii ''response'') = Inr response"
    and "py_get request (ascii ''system'') (JStr []) = Inr original_system"
    and "inject_system_additions original_system ip = Inr enhanced_system"
    and "py_get request (ascii ''tools'') JNull = Inr JNull"
  shows "read_lines w ip True file_path n (line # rest)
           = ([], Some (FileNotFoundError CatalogueFile))"
proof -
  have "process_session_turn w turn_data ip True = Inl (FileNotFoundError CatalogueFile)"
    using assms
    by (simp add: process_session_turn_def resolve_tools_def load_tool_catalogue_def)
  then have "read_line w ip True line = Inl (FileNotFoundError CatalogueFile)"
    using assms(3) by (simp add: read_line_def)
  with assms(2) show ?thesis by simp
qed

text \<open>
  A catalogue document that is not valid JSON does not end the load: the
  \<open>JSONDecodeError\<close> of \<open>load_tool_catalogue\<close> is caught by the handler meant for the
  lines of the session file. The line is reported as invalid JSON, no example is
  yielded, and the load ends without an exception.
\<close>

theorem unparseable_catalogue_is_skipped:
  "load_tool_catalogue (test_world (Some (ascii ''{'')) [(session_file, [min_line])])
     = Inl JSONDecodeError
   \<and> load_training_data (test_world (Some (ascii ''{'')) [(session_file, [min_line])])
       (ascii ''data'') [ascii ''*.jsonl''] False True
     = ([Warning (InvalidJSON session_file 1)], None)"
proof -
  have bad: "json_loads (\<lambda>s. s) (ascii ''{'') = Inl JSONDecodeError"
    by code_simp
  have cat: "load_tool_catalogue (test_world (Some (ascii ''{'')) [(session_file, [min_line])])
     = Inl JSONDecodeError"
    by (simp add: load_tool_catalogue_def bad)
  have "read_line (test_world (Some (ascii ''{'')) [(session_file, [min_line])]) False True
      min_line = Inl JSONDecodeError"
    by (simp add: read_line_def min_line_loads min_turn_needs_catalogue cat)
  then show ?thesis
    using cat
    by (simp add: load_session_files_def lines_not_blank emit_def andthen_def)
qed

end
